theory Spec2Isabelle
  imports Main
begin

section \<open>Types of the translation unit\<close>

text \<open>
  The library of \<^verbatim>\<open>type_list.hpp\<close> computes on C++ types, at compile time. A type is a
  value of \<open>ctype\<close>:
  \<^item> \<open>Builtin n\<close>: an object type with no member types (\<^verbatim>\<open>char\<close>, \<^verbatim>\<open>long long\<close>, ...);
  \<^item> \<open>Void q\<close>: \<^verbatim>\<open>void\<close> with the cv-qualification \<open>q\<close>, the types to which no reference
    can be formed;
  \<^item> \<open>Integral_constant T v\<close>: \<^verbatim>\<open>std::integral_constant<T, v>\<close>, whose member \<^verbatim>\<open>type\<close>
    is the specialization itself;
  \<^item> \<open>Type_list_nil\<close>: the specialization \<^verbatim>\<open>type_list<>\<close>, which has no members;
  \<^item> \<open>Type_list_cons First Rest\<close>: the specialization \<^verbatim>\<open>type_list<First, Rest>\<close>, with
    the member types \<^verbatim>\<open>first\<close> and \<^verbatim>\<open>rest\<close>; \<open>Rest\<close> is any type;
  \<^item> \<open>Struct n f r t\<close>: a class of the caller named \<open>n\<close> that declares the member types
    \<^verbatim>\<open>first\<close>, \<^verbatim>\<open>rest\<close> and \<^verbatim>\<open>type\<close> for which \<open>f\<close>, \<open>r\<close> and \<open>t\<close> are not \<open>None\<close>.
  A \<open>Struct\<close> is never its own member; the class that is its own member \<^verbatim>\<open>type\<close> is
  \<open>Integral_constant\<close>. The specializations of \<^verbatim>\<open>type_list\<close> with one argument or with
  more than two are declared and never defined, and are not among the values.
  \<^verbatim>\<open>std::is_same_v\<close> is equality of \<open>ctype\<close>.
\<close>

datatype cv_qualifier = Unqualified | Const | Volatile | Const_volatile

datatype ctype =
    Builtin string
  | Void cv_qualifier
  | Integral_constant ctype int
  | Type_list_nil
  | Type_list_cons ctype ctype
  | Struct string "ctype option" "ctype option" "ctype option"

text \<open>\<^verbatim>\<open>typename T::first\<close>, \<^verbatim>\<open>typename T::rest\<close> and \<^verbatim>\<open>typename T::type\<close>: \<open>None\<close> when
  \<open>T\<close> has no such member type.\<close>

fun first :: "ctype \<Rightarrow> ctype option" where
  "first (Type_list_cons First Rest) = Some First"
| "first (Struct n f r t) = f"
| "first _ = None"

fun rest :: "ctype \<Rightarrow> ctype option" where
  "rest (Type_list_cons First Rest) = Some Rest"
| "rest (Struct n f r t) = r"
| "rest _ = None"

fun nested_type :: "ctype \<Rightarrow> ctype option" where
  "nested_type (Integral_constant T v) = Some (Integral_constant T v)"
| "nested_type (Struct n f r t) = t"
| "nested_type _ = None"

text \<open>\<^verbatim>\<open>T&&\<close> is a type: the parameter list of a requires-expression can name it.\<close>

fun referenceable :: "ctype \<Rightarrow> bool" where
  "referenceable (Void q) = False"
| "referenceable _ = True"

text \<open>
  An operation is a class with a member alias template \<^verbatim>\<open>type\<close>. Its model is the mapping
  that \<^verbatim>\<open>Op::template type<...>\<close> computes: \<open>None\<close> where the template-id is ill-formed (the
  class has no such member template, or the substitution into it fails).
\<close>

type_synonym unary_operation = "ctype \<Rightarrow> ctype option"
type_synonym binary_operation = "ctype \<Rightarrow> ctype \<Rightarrow> ctype option"

text \<open>What stops the translation: the requires-clause of a primary template is not
  satisfied, a member type that a template names does not exist, or the operation has no
  mapping for its arguments.\<close>

datatype error =
    Constraint_not_satisfied
  | No_member string
  | No_mapping

section \<open>The requires-clauses\<close>

text \<open>\<^verbatim>\<open>TYPE_LIST_CXX20REQUIRES(x)\<close> is \<^verbatim>\<open>requires x\<close> when \<^verbatim>\<open>__cplusplus >= 202002L\<close> and
  empty otherwise. \<open>cxx20\<close> is that test; the value says whether the template may be used.\<close>

definition TYPE_LIST_CXX20REQUIRES :: "bool \<Rightarrow> bool \<Rightarrow> bool" where
  "TYPE_LIST_CXX20REQUIRES cxx20 x = (if cxx20 then x else True)"

text \<open>
  The requires-expressions of \<open>is_unary_operation\<close> and \<open>is_binary_operation\<close> declare a
  parameter of type \<^verbatim>\<open>Operation&&\<close>; an operation that is \<^verbatim>\<open>void\<close> has no mapping, so
  that the test of the mapping refuses it as well. \<open>is_binary_operation\<close> declares a
  parameter of type \<^verbatim>\<open>InitialElement&&\<close> too, and its requirement applies the operation
  to \<^verbatim>\<open>InitialElement\<close> and \<^verbatim>\<open>TypeList::first\<close>, in this order.
\<close>

definition is_type_list :: "ctype \<Rightarrow> bool" where
  "is_type_list T =
     ((case first T of None \<Rightarrow> False
       | Some _ \<Rightarrow> (case rest T of None \<Rightarrow> False | Some _ \<Rightarrow> True))
      \<or> T = Type_list_nil)"

definition is_unary_operation :: "unary_operation \<Rightarrow> ctype \<Rightarrow> bool" where
  "is_unary_operation UnaryOperation TypeList =
     ((case first TypeList of None \<Rightarrow> False
       | Some f \<Rightarrow> (case UnaryOperation f of None \<Rightarrow> False | Some _ \<Rightarrow> True))
      \<or> TypeList = Type_list_nil)"

definition is_binary_operation :: "binary_operation \<Rightarrow> ctype \<Rightarrow> ctype \<Rightarrow> bool" where
  "is_binary_operation BinaryOperation TypeList InitialElement =
     ((referenceable InitialElement \<and>
       (case first TypeList of None \<Rightarrow> False
        | Some f \<Rightarrow> (case BinaryOperation InitialElement f of None \<Rightarrow> False | Some _ \<Rightarrow> True)))
      \<or> TypeList = Type_list_nil)"

section \<open>make\<close>

text \<open>\<^verbatim>\<open>make_t<Types...>\<close>: the parameter pack is the list of its types.\<close>

fun make_t :: "ctype list \<Rightarrow> ctype" where
  "make_t [] = Type_list_nil"
| "make_t (T # Ts) = Type_list_cons T (make_t Ts)"

section \<open>size\<close>

text \<open>
  \<^verbatim>\<open>size_v<TypeList>\<close>. Naming a specialization of a constrained template checks the
  requires-clause of the primary template first; then the specialization for
  \<^verbatim>\<open>type_list<>\<close> is chosen where it matches. The value is a \<^verbatim>\<open>size_t\<close>; it is kept as a
  natural number, a list of as many nodes as \<^verbatim>\<open>size_t\<close> has values being beyond any
  translation unit.
\<close>

function size_v :: "bool \<Rightarrow> ctype \<Rightarrow> error + nat" where
  "size_v cxx20 TypeList =
     (if \<not> TYPE_LIST_CXX20REQUIRES cxx20 (is_type_list TypeList)
      then Inl Constraint_not_satisfied
      else if TypeList = Type_list_nil then Inr 0
      else (case rest TypeList of
              None \<Rightarrow> Inl (No_member ''rest'')
            | Some R \<Rightarrow> (case size_v cxx20 R of
                           Inl e \<Rightarrow> Inl e
                         | Inr n \<Rightarrow> Inr (1 + n))))"
  by pat_completeness auto
termination
proof (relation "measure (\<lambda>(cxx20, T). size T)")
  fix cxx20 :: bool and TypeList R :: ctype
  assume "rest TypeList = Some R"
  then show "((cxx20, R), (cxx20, TypeList)) \<in> measure (\<lambda>(cxx20, T). size T)"
    by (cases TypeList) auto
qed simp

section \<open>contains\<close>

text \<open>
  \<^verbatim>\<open>contains_v<TypeList, Element>\<close>. Both operands of \<^verbatim>\<open>||\<close> are part of the template
  argument, so the recursive specialization is instantiated whatever the first operand
  is.
\<close>

function contains_v :: "bool \<Rightarrow> ctype \<Rightarrow> ctype \<Rightarrow> error + bool" where
  "contains_v cxx20 TypeList Element =
     (if \<not> TYPE_LIST_CXX20REQUIRES cxx20 (is_type_list TypeList)
      then Inl Constraint_not_satisfied
      else if TypeList = Type_list_nil then Inr False
      else (case first TypeList of
              None \<Rightarrow> Inl (No_member ''first'')
            | Some F \<Rightarrow>
               (case rest TypeList of
                  None \<Rightarrow> Inl (No_member ''rest'')
                | Some R \<Rightarrow> (case contains_v cxx20 R Element of
                               Inl e \<Rightarrow> Inl e
                             | Inr b \<Rightarrow> Inr (Element = F \<or> b)))))"
  by pat_completeness auto
termination
proof (relation "measure (\<lambda>(cxx20, T, E). size T)")
  fix cxx20 :: bool and TypeList Element F R :: ctype
  assume "rest TypeList = Some R"
  then show "((cxx20, R, Element), (cxx20, TypeList, Element))
               \<in> measure (\<lambda>(cxx20, T, E). size T)"
    by (cases TypeList) auto
qed simp

section \<open>equal\<close>

text \<open>
  \<^verbatim>\<open>equal_v<TypeList1, TypeList2>\<close>. The full specialization for two empty lists is chosen
  before the two partial ones, which match when exactly one side is \<^verbatim>\<open>type_list<>\<close>.
\<close>

function equal_v :: "bool \<Rightarrow> ctype \<Rightarrow> ctype \<Rightarrow> error + bool" where
  "equal_v cxx20 TypeList1 TypeList2 =
     (if \<not> TYPE_LIST_CXX20REQUIRES cxx20 (is_type_list TypeList1 \<and> is_type_list TypeList2)
      then Inl Constraint_not_satisfied
      else if TypeList1 = Type_list_nil \<and> TypeList2 = Type_list_nil then Inr True
      else if TypeList2 = Type_list_nil then Inr False
      else if TypeList1 = Type_list_nil then Inr False
      else (case first TypeList1 of
              None \<Rightarrow> Inl (No_member ''first'')
            | Some F1 \<Rightarrow>
               (case first TypeList2 of
                  None \<Rightarrow> Inl (No_member ''first'')
                | Some F2 \<Rightarrow>
                   (case rest TypeList1 of
                      None \<Rightarrow> Inl (No_member ''rest'')
                    | Some R1 \<Rightarrow>
                       (case rest TypeList2 of
                          None \<Rightarrow> Inl (No_member ''rest'')
                        | Some R2 \<Rightarrow> (case equal_v cxx20 R1 R2 of
                                        Inl e \<Rightarrow> Inl e
                                      | Inr b \<Rightarrow> Inr (F1 = F2 \<and> b)))))))"
  by pat_completeness auto
termination
proof (relation "measure (\<lambda>(cxx20, T1, T2). size T1)")
  fix cxx20 :: bool and TypeList1 TypeList2 F1 F2 R1 R2 :: ctype
  assume "rest TypeList1 = Some R1"
  then show "((cxx20, R1, R2), (cxx20, TypeList1, TypeList2))
               \<in> measure (\<lambda>(cxx20, T1, T2). size T1)"
    by (cases TypeList1) auto
qed simp

section \<open>transform\<close>

text \<open>
  \<^verbatim>\<open>transform_t<TypeList, UnaryOperation>\<close>. The head of the result is the member \<^verbatim>\<open>type\<close>
  of \<^verbatim>\<open>UnaryOperation::template type<first>\<close>.
\<close>

function transform_t :: "bool \<Rightarrow> ctype \<Rightarrow> unary_operation \<Rightarrow> error + ctype" where
  "transform_t cxx20 TypeList UnaryOperation =
     (if \<not> TYPE_LIST_CXX20REQUIRES cxx20
             (is_type_list TypeList \<and> is_unary_operation UnaryOperation TypeList)
      then Inl Constraint_not_satisfied
      else if TypeList = Type_list_nil then Inr Type_list_nil
      else (case first TypeList of
              None \<Rightarrow> Inl (No_member ''first'')
            | Some F \<Rightarrow>
               (case UnaryOperation F of
                  None \<Rightarrow> Inl No_mapping
                | Some U \<Rightarrow>
                   (case nested_type U of
                      None \<Rightarrow> Inl (No_member ''type'')
                    | Some H \<Rightarrow>
                       (case rest TypeList of
                          None \<Rightarrow> Inl (No_member ''rest'')
                        | Some R \<Rightarrow> (case transform_t cxx20 R UnaryOperation of
                                       Inl e \<Rightarrow> Inl e
                                     | Inr T \<Rightarrow> Inr (Type_list_cons H T)))))))"
  by pat_completeness auto
termination
proof (relation "measure (\<lambda>(cxx20, T, Op). size T)")
  fix cxx20 :: bool and TypeList F U H R :: ctype and UnaryOperation :: unary_operation
  assume "rest TypeList = Some R"
  then show "((cxx20, R, UnaryOperation), (cxx20, TypeList, UnaryOperation))
               \<in> measure (\<lambda>(cxx20, T, Op). size T)"
    by (cases TypeList) auto
qed simp

section \<open>fold left\<close>

text \<open>
  \<^verbatim>\<open>foldl<TypeList, BinaryOperation, Initial>::type\<close>. The new initial value is
  \<^verbatim>\<open>BinaryOperation::template type<first, Initial::type>\<close>; the requires-clause asks for
  \<^verbatim>\<open>BinaryOperation::template type<Initial, first>\<close>.
\<close>

function foldl_t :: "bool \<Rightarrow> ctype \<Rightarrow> binary_operation \<Rightarrow> ctype \<Rightarrow> error + ctype" where
  "foldl_t cxx20 TypeList BinaryOperation Initial =
     (if \<not> TYPE_LIST_CXX20REQUIRES cxx20
             (is_type_list TypeList \<and> is_binary_operation BinaryOperation TypeList Initial)
      then Inl Constraint_not_satisfied
      else if TypeList = Type_list_nil then Inr Initial
      else (case first TypeList of
              None \<Rightarrow> Inl (No_member ''first'')
            | Some F \<Rightarrow>
               (case nested_type Initial of
                  None \<Rightarrow> Inl (No_member ''type'')
                | Some I \<Rightarrow>
                   (case BinaryOperation F I of
                      None \<Rightarrow> Inl No_mapping
                    | Some A \<Rightarrow>
                       (case rest TypeList of
                          None \<Rightarrow> Inl (No_member ''rest'')
                        | Some R \<Rightarrow> foldl_t cxx20 R BinaryOperation A)))))"
  by pat_completeness auto
termination
proof (relation "measure (\<lambda>(cxx20, T, Op, Init). size T)")
  fix cxx20 :: bool and TypeList F I A R Initial :: ctype
    and BinaryOperation :: binary_operation
  assume "rest TypeList = Some R"
  then show "((cxx20, R, BinaryOperation, A), (cxx20, TypeList, BinaryOperation, Initial))
               \<in> measure (\<lambda>(cxx20, T, Op, Init). size T)"
    by (cases TypeList) auto
qed simp

declare size_v.simps [simp del] contains_v.simps [simp del] equal_v.simps [simp del]
  transform_t.simps [simp del] foldl_t.simps [simp del]

section \<open>Well-formed lists\<close>

text \<open>
  The specification's list: \<open>Empty\<close>, or a node whose tail is again a list. This
  predicate follows the specification's data model; the code's own test is
  \<open>is_type_list\<close>.
\<close>

fun valid_list_shape :: "ctype \<Rightarrow> bool" where
  "valid_list_shape Type_list_nil = True"
| "valid_list_shape (Type_list_cons First Rest) = valid_list_shape Rest"
| "valid_list_shape _ = False"

section \<open>The operations on the empty list and on a node\<close>

lemma is_type_list_nil: "is_type_list Type_list_nil"
  by (simp add: is_type_list_def)

lemma is_type_list_cons: "is_type_list (Type_list_cons F R)"
  by (simp add: is_type_list_def)

lemma requires_cxx17: "TYPE_LIST_CXX20REQUIRES False x"
  by (simp add: TYPE_LIST_CXX20REQUIRES_def)

lemma size_v_nil: "size_v cxx20 Type_list_nil = Inr 0"
  by (simp add: size_v.simps TYPE_LIST_CXX20REQUIRES_def is_type_list_nil)

lemma size_v_cons:
  "size_v cxx20 (Type_list_cons F R) =
     (case size_v cxx20 R of Inl e \<Rightarrow> Inl e | Inr n \<Rightarrow> Inr (1 + n))"
  by (simp add: size_v.simps [of _ "Type_list_cons F R"] TYPE_LIST_CXX20REQUIRES_def
      is_type_list_cons)

lemma size_v_make: "size_v cxx20 (make_t Ts) = Inr (length Ts)"
  by (induction Ts) (simp_all add: size_v_nil size_v_cons)

lemma contains_v_nil: "contains_v cxx20 Type_list_nil E = Inr False"
  by (simp add: contains_v.simps TYPE_LIST_CXX20REQUIRES_def is_type_list_nil)

lemma contains_v_cons:
  "contains_v cxx20 (Type_list_cons F R) E =
     (case contains_v cxx20 R E of Inl e \<Rightarrow> Inl e | Inr b \<Rightarrow> Inr (E = F \<or> b))"
  by (simp add: contains_v.simps [of _ "Type_list_cons F R"] TYPE_LIST_CXX20REQUIRES_def
      is_type_list_cons)

lemma contains_v_make: "contains_v cxx20 (make_t Ts) E = Inr (E \<in> set Ts)"
  by (induction Ts) (auto simp: contains_v_nil contains_v_cons)

lemma equal_v_nil_nil: "equal_v cxx20 Type_list_nil Type_list_nil = Inr True"
  by (simp add: equal_v.simps TYPE_LIST_CXX20REQUIRES_def is_type_list_nil)

lemma equal_v_nil_cons: "equal_v cxx20 Type_list_nil (Type_list_cons F R) = Inr False"
  by (simp add: equal_v.simps [of _ Type_list_nil] TYPE_LIST_CXX20REQUIRES_def
      is_type_list_nil is_type_list_cons)

lemma equal_v_cons_nil: "equal_v cxx20 (Type_list_cons F R) Type_list_nil = Inr False"
  by (simp add: equal_v.simps [of _ "Type_list_cons F R"] TYPE_LIST_CXX20REQUIRES_def
      is_type_list_nil is_type_list_cons)

lemma equal_v_cons_cons:
  "equal_v cxx20 (Type_list_cons F1 R1) (Type_list_cons F2 R2) =
     (case equal_v cxx20 R1 R2 of Inl e \<Rightarrow> Inl e | Inr b \<Rightarrow> Inr (F1 = F2 \<and> b))"
  by (simp add: equal_v.simps [of _ "Type_list_cons F1 R1"] TYPE_LIST_CXX20REQUIRES_def
      is_type_list_cons)

lemma equal_v_make: "equal_v cxx20 (make_t As) (make_t Bs) = Inr (As = Bs)"
proof (induction As arbitrary: Bs)
  case Nil
  show ?case
    by (cases Bs) (simp_all add: equal_v_nil_nil equal_v_nil_cons)
next
  case (Cons A As)
  show ?case
  proof (cases Bs)
    case Nil
    then show ?thesis by (simp add: equal_v_cons_nil)
  next
    case (Cons B Bs')
    then show ?thesis by (simp add: equal_v_cons_cons Cons.IH)
  qed
qed

lemma transform_t_nil: "transform_t cxx20 Type_list_nil Op = Inr Type_list_nil"
  by (simp add: transform_t.simps TYPE_LIST_CXX20REQUIRES_def is_type_list_nil
      is_unary_operation_def)

lemma transform_t_cons:
  "transform_t cxx20 (Type_list_cons F R) Op =
     (case Op F of
        None \<Rightarrow> Inl (if cxx20 then Constraint_not_satisfied else No_mapping)
      | Some U \<Rightarrow>
         (case nested_type U of
            None \<Rightarrow> Inl (No_member ''type'')
          | Some H \<Rightarrow> (case transform_t cxx20 R Op of
                         Inl e \<Rightarrow> Inl e
                       | Inr T \<Rightarrow> Inr (Type_list_cons H T))))"
  by (simp add: transform_t.simps [of _ "Type_list_cons F R"] TYPE_LIST_CXX20REQUIRES_def
      is_type_list_cons is_unary_operation_def split: option.splits)

lemma foldl_t_nil: "foldl_t cxx20 Type_list_nil Op Init = Inr Init"
  by (simp add: foldl_t.simps TYPE_LIST_CXX20REQUIRES_def is_type_list_nil
      is_binary_operation_def)

lemma is_binary_operation_cons:
  "is_binary_operation Op (Type_list_cons F R) Init =
     (referenceable Init \<and> Op Init F \<noteq> None)"
  by (simp add: is_binary_operation_def split: option.splits)

lemma nested_type_referenceable: "nested_type T = Some I \<Longrightarrow> referenceable T"
  by (cases T) auto

lemma foldl_t_cons:
  "foldl_t cxx20 (Type_list_cons F R) Op Init =
     (if \<not> TYPE_LIST_CXX20REQUIRES cxx20
             (is_type_list (Type_list_cons F R)
              \<and> is_binary_operation Op (Type_list_cons F R) Init)
      then Inl Constraint_not_satisfied
      else (case nested_type Init of
              None \<Rightarrow> Inl (No_member ''type'')
            | Some I \<Rightarrow> (case Op F I of
                           None \<Rightarrow> Inl No_mapping
                         | Some A \<Rightarrow> foldl_t cxx20 R Op A)))"
  by (simp add: foldl_t.simps [of _ "Type_list_cons F R"] split: option.splits)

lemma transform_t_make_iff:
  "(transform_t cxx20 (make_t Ts) Op = Inr L) =
     (\<exists>Hs. L = make_t Hs \<and>
           list_all2 (\<lambda>T H. \<exists>U. Op T = Some U \<and> nested_type U = Some H) Ts Hs)"
proof (induction Ts arbitrary: L)
  case Nil
  show ?case by (auto simp: transform_t_nil)
next
  case (Cons T Ts)
  show ?case
  proof
    assume "transform_t cxx20 (make_t (T # Ts)) Op = Inr L"
    then obtain U H L' where u: "Op T = Some U" and h: "nested_type U = Some H"
      and l': "transform_t cxx20 (make_t Ts) Op = Inr L'" and l: "L = Type_list_cons H L'"
      by (auto simp: transform_t_cons split: option.splits sum.splits)
    from l' Cons.IH obtain Hs where "L' = make_t Hs"
      and "list_all2 (\<lambda>T H. \<exists>U. Op T = Some U \<and> nested_type U = Some H) Ts Hs"
      by blast
    with u h l have "L = make_t (H # Hs) \<and>
        list_all2 (\<lambda>T H. \<exists>U. Op T = Some U \<and> nested_type U = Some H) (T # Ts) (H # Hs)"
      by simp
    then show "\<exists>Hs. L = make_t Hs \<and>
        list_all2 (\<lambda>T H. \<exists>U. Op T = Some U \<and> nested_type U = Some H) (T # Ts) Hs"
      by blast
  next
    assume "\<exists>Hs. L = make_t Hs \<and>
        list_all2 (\<lambda>T H. \<exists>U. Op T = Some U \<and> nested_type U = Some H) (T # Ts) Hs"
    then obtain H Hs U where l: "L = make_t (H # Hs)" and u: "Op T = Some U"
      and h: "nested_type U = Some H"
      and r: "list_all2 (\<lambda>T H. \<exists>U. Op T = Some U \<and> nested_type U = Some H) Ts Hs"
      by (auto simp: list_all2_Cons1)
    from r Cons.IH have "transform_t cxx20 (make_t Ts) Op = Inr (make_t Hs)"
      by blast
    with l u h show "transform_t cxx20 (make_t (T # Ts)) Op = Inr L"
      by (simp add: transform_t_cons)
  qed
qed

section \<open>Construction and size\<close>

text \<open>
  C1: for every sequence of types \<open>Ts\<close>, \<open>make_t Ts\<close> is the chain of one node per type, in
  the order of the arguments: the head of \<open>make_t (T # Us)\<close> is \<open>T\<close> and its tail is
  \<open>make_t Us\<close>, the chain ends in \<open>Type_list_nil\<close>, and \<open>make_t []\<close> is \<open>Type_list_nil\<close>
  itself. The size of \<open>make_t Ts\<close> is the number of types, \<open>0\<close> for no type.
\<close>

theorem make_chain_and_size:
  "make_t [] = Type_list_nil
   \<and> first (make_t (T # Us)) = Some T
   \<and> rest (make_t (T # Us)) = Some (make_t Us)
   \<and> make_t Ts = foldr Type_list_cons Ts Type_list_nil
   \<and> size_v cxx20 (make_t Ts) = Inr (length Ts)
   \<and> size_v cxx20 (make_t []) = Inr 0"
proof (intro conjI)
  show "make_t Ts = foldr Type_list_cons Ts Type_list_nil"
    by (induction Ts) simp_all
  show "size_v cxx20 (make_t Ts) = Inr (length Ts)"
    by (rule size_v_make)
  show "size_v cxx20 (make_t []) = Inr 0"
    using size_v_make [of cxx20 "[]"] by simp
qed simp_all

section \<open>Equality of lists\<close>

text \<open>
  C4: for lists built from the sequences \<open>As\<close> and \<open>Bs\<close>, \<open>equal_v\<close> is true exactly when the
  two have the same length and the same type at every position. Two empty lists are
  equal, the empty list and a non-empty one are not (whichever comes first), and every
  list is equal to itself.
\<close>

theorem equal_iff_same_elements:
  "equal_v cxx20 (make_t As) (make_t Bs) =
     Inr (length As = length Bs \<and> (\<forall>i<length As. As ! i = Bs ! i))
   \<and> equal_v cxx20 Type_list_nil Type_list_nil = Inr True
   \<and> equal_v cxx20 Type_list_nil (make_t (B # Bs')) = Inr False
   \<and> equal_v cxx20 (make_t (A # As')) Type_list_nil = Inr False
   \<and> equal_v cxx20 (make_t Ls) (make_t Ls) = Inr True"
proof -
  have "equal_v cxx20 (make_t As) (make_t Bs) =
          Inr (length As = length Bs \<and> (\<forall>i<length As. As ! i = Bs ! i))"
    by (simp add: equal_v_make list_eq_iff_nth_eq)
  moreover have "equal_v cxx20 (make_t Ls) (make_t Ls) = Inr True"
    by (simp add: equal_v_make)
  ultimately show ?thesis
    by (simp add: equal_v_nil_nil equal_v_nil_cons equal_v_cons_nil)
qed

theorem equal_iff_same_elements_witness:
  "equal_v True (make_t [Builtin ''int'', Builtin ''char''])
                (make_t [Builtin ''int'', Builtin ''char'']) = Inr True
   \<and> equal_v True (make_t [Builtin ''int'', Builtin ''char''])
                  (make_t [Builtin ''char'', Builtin ''int'']) = Inr False
   \<and> equal_v False (make_t [Builtin ''int'', Builtin ''char''])
                   (make_t [Builtin ''int'']) = Inr False"
  using equal_iff_same_elements [of True "[Builtin ''int'', Builtin ''char'']"
      "[Builtin ''int'', Builtin ''char'']"]
    equal_iff_same_elements [of True "[Builtin ''int'', Builtin ''char'']"
      "[Builtin ''char'', Builtin ''int'']"]
    equal_iff_same_elements [of False "[Builtin ''int'', Builtin ''char'']"
      "[Builtin ''int'']"]
  by (simp add: All_less_Suc)

section \<open>Membership\<close>

text \<open>
  C5: a list built from \<open>Ts\<close> contains every one of the \<open>Ts\<close> and no other type: the test
  is identity of types (\<^verbatim>\<open>std::is_same_v\<close>), so a type of another name, or the same
  constant of another value type, is not found. The empty list contains nothing.
\<close>

theorem contains_iff_member:
  "contains_v cxx20 (make_t Ts) X = Inr (X \<in> set Ts)
   \<and> (i < length Ts \<longrightarrow> contains_v cxx20 (make_t Ts) (Ts ! i) = Inr True)
   \<and> (X \<notin> set Ts \<longrightarrow> contains_v cxx20 (make_t Ts) X = Inr False)
   \<and> contains_v cxx20 Type_list_nil E = Inr False"
  by (simp add: contains_v_make contains_v_nil)

theorem contains_iff_member_witness:
  "(1::nat) < length [Integral_constant (Builtin ''unsigned'') 1,
                      Integral_constant (Builtin ''unsigned'') 2,
                      Integral_constant (Builtin ''unsigned'') 3]
   \<and> contains_v True (make_t [Integral_constant (Builtin ''unsigned'') 1,
                               Integral_constant (Builtin ''unsigned'') 2,
                               Integral_constant (Builtin ''unsigned'') 3])
        (Integral_constant (Builtin ''unsigned'') 2) = Inr True
   \<and> Integral_constant (Builtin ''int'') 2
        \<notin> set [Integral_constant (Builtin ''unsigned'') 1,
                Integral_constant (Builtin ''unsigned'') 2,
                Integral_constant (Builtin ''unsigned'') 3]
   \<and> contains_v True (make_t [Integral_constant (Builtin ''unsigned'') 1,
                               Integral_constant (Builtin ''unsigned'') 2,
                               Integral_constant (Builtin ''unsigned'') 3])
        (Integral_constant (Builtin ''int'') 2) = Inr False"
  using contains_iff_member [of True "[Integral_constant (Builtin ''unsigned'') 1,
      Integral_constant (Builtin ''unsigned'') 2,
      Integral_constant (Builtin ''unsigned'') 3]"
      "Integral_constant (Builtin ''int'') 2" 1]
  by simp

section \<open>Folding the empty list\<close>

text \<open>
  C6: whatever the binary operation and the initial value, folding the empty list gives
  the initial value back.
\<close>

theorem foldl_empty_identity:
  "foldl_t cxx20 (make_t []) BinaryOperation Initial = Inr Initial"
  by (simp add: foldl_t_nil)

text \<open>
  C10: on the empty list the requirement on the operation holds for any operation, one
  with no mapping at all included; \<open>transform_t\<close> gives the empty list and \<open>foldl_t\<close> the
  initial value, the same for every operation.
\<close>

theorem empty_list_accepts_any_operation:
  "is_unary_operation UnaryOperation Type_list_nil
   \<and> is_unary_operation (\<lambda>T. None) Type_list_nil
   \<and> is_binary_operation BinaryOperation Type_list_nil Initial
   \<and> is_binary_operation (\<lambda>A B. None) Type_list_nil Initial
   \<and> TYPE_LIST_CXX20REQUIRES cxx20
        (is_type_list Type_list_nil \<and> is_unary_operation UnaryOperation Type_list_nil)
   \<and> TYPE_LIST_CXX20REQUIRES cxx20
        (is_type_list Type_list_nil
         \<and> is_binary_operation BinaryOperation Type_list_nil Initial)
   \<and> transform_t cxx20 Type_list_nil UnaryOperation = Inr Type_list_nil
   \<and> transform_t cxx20 Type_list_nil (\<lambda>T. None) = Inr Type_list_nil
   \<and> foldl_t cxx20 Type_list_nil BinaryOperation Initial = Inr Initial
   \<and> foldl_t cxx20 Type_list_nil (\<lambda>A B. None) Initial = Inr Initial"
  by (simp add: is_unary_operation_def is_binary_operation_def is_type_list_nil
      TYPE_LIST_CXX20REQUIRES_def transform_t_nil foldl_t_nil)

section \<open>Transforming a list\<close>

lemma size_v_step:
  "first L = Some F \<Longrightarrow> rest L = Some R \<Longrightarrow>
   size_v cxx20 L = (case size_v cxx20 R of Inl e \<Rightarrow> Inl e | Inr n \<Rightarrow> Inr (1 + n))"
proof -
  assume f: "first L = Some F" and r: "rest L = Some R"
  then have "is_type_list L" and "L \<noteq> Type_list_nil"
    by (auto simp: is_type_list_def)
  with r show ?thesis
    by (subst size_v.simps [of cxx20 L]) (simp add: TYPE_LIST_CXX20REQUIRES_def)
qed

lemma transform_t_size:
  "transform_t cxx20 L Op = Inr L' \<Longrightarrow> size_v cxx20 L' = size_v cxx20 L"
proof (induction cxx20 L Op arbitrary: L' rule: transform_t.induct)
  case (1 cxx20 TypeList UnaryOperation)
  show ?case
  proof (cases "TypeList = Type_list_nil")
    case True
    with "1.prems" show ?thesis by (simp add: transform_t_nil)
  next
    case False
    from "1.prems" False obtain F U H R T where f: "first TypeList = Some F"
      and u: "UnaryOperation F = Some U" and h: "nested_type U = Some H"
      and r: "rest TypeList = Some R" and t: "transform_t cxx20 R UnaryOperation = Inr T"
      and l: "L' = Type_list_cons H T"
      and c: "TYPE_LIST_CXX20REQUIRES cxx20
             (is_type_list TypeList \<and> is_unary_operation UnaryOperation TypeList)"
      by (subst (asm) transform_t.simps) (auto split: if_splits option.splits sum.splits)
    from "1.IH" [OF _ False f u h r t] c have "size_v cxx20 T = size_v cxx20 R"
      by simp
    with f r l show ?thesis
      by (simp add: size_v_cons size_v_step [of TypeList F R])
  qed
qed

text \<open>
  C7: the elements of a transformed list are the member \<^verbatim>\<open>type\<close> of what the operation
  gives for each element, not what it gives itself. \<open>transform_t\<close> of a non-empty made
  list succeeds exactly when the operation has a result with a member \<^verbatim>\<open>type\<close> for
  every element, and the result is the list of these member types; a result without
  a member \<^verbatim>\<open>type\<close> stops the translation; the head is the operation's own result exactly
  when that result is its own member \<^verbatim>\<open>type\<close>.
\<close>

theorem transform_yields_nested_type:
  "(transform_t cxx20 (make_t (T # Ts)) Op = Inr L) =
     (\<exists>Hs. L = make_t Hs \<and>
           list_all2 (\<lambda>T H. \<exists>U. Op T = Some U \<and> nested_type U = Some H) (T # Ts) Hs)
   \<and> (Op F = Some U \<and> nested_type U = None \<longrightarrow>
        transform_t cxx20 (Type_list_cons F R) Op = Inl (No_member ''type''))
   \<and> (Op F = Some U \<and> nested_type U = Some H \<and> transform_t cxx20 R Op = Inr R' \<longrightarrow>
        transform_t cxx20 (Type_list_cons F R) Op = Inr (Type_list_cons H R'))
   \<and> (Op F = Some U \<and> transform_t cxx20 (Type_list_cons F R) Op = Inr (Type_list_cons H R')
        \<longrightarrow> (H = U) = (nested_type U = Some U))"
proof (intro conjI)
  show "(transform_t cxx20 (make_t (T # Ts)) Op = Inr L) =
     (\<exists>Hs. L = make_t Hs \<and>
           list_all2 (\<lambda>T H. \<exists>U. Op T = Some U \<and> nested_type U = Some H) (T # Ts) Hs)"
    by (rule transform_t_make_iff)
  show "Op F = Some U \<and> nested_type U = None \<longrightarrow>
        transform_t cxx20 (Type_list_cons F R) Op = Inl (No_member ''type'')"
    by (simp add: transform_t_cons)
  show "Op F = Some U \<and> nested_type U = Some H \<and> transform_t cxx20 R Op = Inr R' \<longrightarrow>
        transform_t cxx20 (Type_list_cons F R) Op = Inr (Type_list_cons H R')"
    by (simp add: transform_t_cons)
  show "Op F = Some U \<and> transform_t cxx20 (Type_list_cons F R) Op = Inr (Type_list_cons H R')
        \<longrightarrow> (H = U) = (nested_type U = Some U)"
    by (auto simp: transform_t_cons split: option.splits sum.splits)
qed

theorem transform_yields_nested_type_witness:
  "transform_t True (make_t [Builtin ''int'', Builtin ''char''])
      (\<lambda>T. Some (Struct ''type_identity'' None None (Some T)))
     = Inr (make_t [Builtin ''int'', Builtin ''char''])
   \<and> transform_t True (Type_list_cons (Builtin ''int'') Type_list_nil)
        (\<lambda>T. Some (Struct ''type_identity'' None None None))
     = Inl (No_member ''type'')
   \<and> transform_t True (Type_list_cons (Builtin ''int'') Type_list_nil)
        (\<lambda>T. Some (Integral_constant (Builtin ''size_t'') 4))
     = Inr (Type_list_cons (Integral_constant (Builtin ''size_t'') 4) Type_list_nil)"
proof (intro conjI)
  have "list_all2 (\<lambda>T H. \<exists>U. (\<lambda>T. Some (Struct ''type_identity'' None None (Some T))) T = Some U
                          \<and> nested_type U = Some H)
          [Builtin ''int'', Builtin ''char''] [Builtin ''int'', Builtin ''char'']"
    by simp
  then show "transform_t True (make_t [Builtin ''int'', Builtin ''char''])
      (\<lambda>T. Some (Struct ''type_identity'' None None (Some T)))
     = Inr (make_t [Builtin ''int'', Builtin ''char''])"
    using transform_yields_nested_type [of True "Builtin ''int''" "[Builtin ''char'']"
        "\<lambda>T. Some (Struct ''type_identity'' None None (Some T))"
        "make_t [Builtin ''int'', Builtin ''char'']"]
    by blast
  show "transform_t True (Type_list_cons (Builtin ''int'') Type_list_nil)
        (\<lambda>T. Some (Struct ''type_identity'' None None None))
     = Inl (No_member ''type'')"
    using transform_yields_nested_type [of True _ _
        "\<lambda>T. Some (Struct ''type_identity'' None None None)" _ "Builtin ''int''"
        "Struct ''type_identity'' None None None" Type_list_nil]
    by simp
  show "transform_t True (Type_list_cons (Builtin ''int'') Type_list_nil)
        (\<lambda>T. Some (Integral_constant (Builtin ''size_t'') 4))
     = Inr (Type_list_cons (Integral_constant (Builtin ''size_t'') 4) Type_list_nil)"
    using transform_yields_nested_type [of True _ _
        "\<lambda>T. Some (Integral_constant (Builtin ''size_t'') 4)" _ "Builtin ''int''"
        "Integral_constant (Builtin ''size_t'') 4" Type_list_nil
        "Integral_constant (Builtin ''size_t'') 4" Type_list_nil]
    by (simp add: transform_t_nil)
qed

text \<open>
  C2, as the code has it: when the operation has, for every element of the list, a
  result with a member \<^verbatim>\<open>type\<close>, the transformed list has the length of the list and
  its \<open>i\<close>-th element is the member \<^verbatim>\<open>type\<close> of the operation's result for the \<open>i\<close>-th
  element, in the same order; where every result is its own member \<^verbatim>\<open>type\<close> (as a
  \<^verbatim>\<open>std::integral_constant\<close> is) the \<open>i\<close>-th element is the result itself. The empty list
  transforms to the empty list, and a transformed list has the size of the list it
  comes from.
\<close>

theorem transform_elementwise:
  "(length Hs = length Ts
      \<and> (\<forall>i<length Ts. \<exists>U. Op (Ts ! i) = Some U \<and> nested_type U = Some (Hs ! i))
     \<longrightarrow> transform_t cxx20 (make_t Ts) Op = Inr (make_t Hs)
         \<and> size_v cxx20 (make_t Hs) = size_v cxx20 (make_t Ts))
   \<and> ((\<forall>T\<in>set Ts. nested_type (f T) = Some (f T))
     \<longrightarrow> transform_t cxx20 (make_t Ts) (\<lambda>T. Some (f T)) = Inr (make_t (map f Ts)))
   \<and> transform_t cxx20 Type_list_nil Op = Inr Type_list_nil
   \<and> (transform_t cxx20 L Op = Inr L' \<longrightarrow> size_v cxx20 L' = size_v cxx20 L)"
proof (intro conjI impI)
  assume a: "length Hs = length Ts
      \<and> (\<forall>i<length Ts. \<exists>U. Op (Ts ! i) = Some U \<and> nested_type U = Some (Hs ! i))"
  then have "list_all2 (\<lambda>T H. \<exists>U. Op T = Some U \<and> nested_type U = Some H) Ts Hs"
    by (simp add: list_all2_conv_all_nth)
  then show "transform_t cxx20 (make_t Ts) Op = Inr (make_t Hs)"
    using transform_t_make_iff [of cxx20 Ts Op "make_t Hs"] by blast
  from a show "size_v cxx20 (make_t Hs) = size_v cxx20 (make_t Ts)"
    by (simp add: size_v_make)
next
  assume "\<forall>T\<in>set Ts. nested_type (f T) = Some (f T)"
  then have "list_all2 (\<lambda>T H. \<exists>U. (\<lambda>T. Some (f T)) T = Some U \<and> nested_type U = Some H)
               Ts (map f Ts)"
    by (simp add: list_all2_conv_all_nth)
  then show "transform_t cxx20 (make_t Ts) (\<lambda>T. Some (f T)) = Inr (make_t (map f Ts))"
    using transform_t_make_iff [of cxx20 Ts "\<lambda>T. Some (f T)" "make_t (map f Ts)"] by blast
next
  show "transform_t cxx20 Type_list_nil Op = Inr Type_list_nil"
    by (rule transform_t_nil)
next
  assume "transform_t cxx20 L Op = Inr L'"
  then show "size_v cxx20 L' = size_v cxx20 L"
    by (rule transform_t_size)
qed

theorem transform_elementwise_witness:
  "transform_t True (make_t [Builtin ''char'', Builtin ''int''])
      (\<lambda>T. Some (Integral_constant (Builtin ''size_t'') 0))
     = Inr (make_t [Integral_constant (Builtin ''size_t'') 0,
                    Integral_constant (Builtin ''size_t'') 0])
   \<and> transform_t True (make_t [Builtin ''char'', Builtin ''int''])
      (\<lambda>T. Some (Struct ''type_identity'' None None (Some T)))
     = Inr (make_t [Builtin ''char'', Builtin ''int''])
   \<and> size_v True (make_t [Builtin ''char'', Builtin ''int'']) = Inr 2"
proof (intro conjI)
  show "transform_t True (make_t [Builtin ''char'', Builtin ''int''])
      (\<lambda>T. Some (Integral_constant (Builtin ''size_t'') 0))
     = Inr (make_t [Integral_constant (Builtin ''size_t'') 0,
                    Integral_constant (Builtin ''size_t'') 0])"
    using transform_elementwise [of _ "[Builtin ''char'', Builtin ''int'']" _ True
        "\<lambda>T. Integral_constant (Builtin ''size_t'') 0"]
    by simp
  have t: "transform_t True (make_t [Builtin ''char'', Builtin ''int''])
      (\<lambda>T. Some (Struct ''type_identity'' None None (Some T)))
     = Inr (make_t [Builtin ''char'', Builtin ''int''])"
    using transform_elementwise [of "[Builtin ''char'', Builtin ''int'']"
        "[Builtin ''char'', Builtin ''int'']"
        "\<lambda>T. Some (Struct ''type_identity'' None None (Some T))" True]
    by (simp add: All_less_Suc)
  then show "transform_t True (make_t [Builtin ''char'', Builtin ''int''])
      (\<lambda>T. Some (Struct ''type_identity'' None None (Some T)))
     = Inr (make_t [Builtin ''char'', Builtin ''int''])" .
  show "size_v True (make_t [Builtin ''char'', Builtin ''int'']) = Inr 2"
    using transform_elementwise [of "[Builtin ''char'', Builtin ''int'']"
        "[Builtin ''char'', Builtin ''int'']"
        "\<lambda>T. Some (Struct ''type_identity'' None None (Some T))" True _
        "make_t [Builtin ''char'', Builtin ''int'']"
        "make_t [Builtin ''char'', Builtin ''int'']"] t
    by (simp add: size_v_cons size_v_nil)
qed

text \<open>
  The claim C2 as it is written fails: the alias \<^verbatim>\<open>template <typename T> using type = T\<close>
  is defined on every type, yet the list of \<^verbatim>\<open>int\<close> cannot be transformed with it, since
  \<^verbatim>\<open>int\<close> has no member \<^verbatim>\<open>type\<close>; and a class whose member \<^verbatim>\<open>type\<close> is \<^verbatim>\<open>int\<close> is transformed
  to \<^verbatim>\<open>int\<close>, not to itself.
\<close>

theorem transform_elementwise_counterexample:
  "transform_t True (make_t [Builtin ''int'']) Some = Inl (No_member ''type'')
   \<and> transform_t True (make_t [Builtin ''int'']) Some \<noteq> Inr (make_t [Builtin ''int''])
   \<and> transform_t True (make_t [Struct ''type_identity'' None None (Some (Builtin ''int''))])
        Some = Inr (make_t [Builtin ''int''])
   \<and> transform_t True (make_t [Struct ''type_identity'' None None (Some (Builtin ''int''))])
        Some \<noteq> Inr (make_t [Struct ''type_identity'' None None (Some (Builtin ''int''))])"
  by (simp add: transform_t_cons transform_t_nil)


section \<open>Folding a list\<close>

text \<open>
  C3, as the code has it: the fold goes from left to right and the operation receives
  the element first and the member \<^verbatim>\<open>type\<close> of the accumulator second. Where the
  requires-clause of \<^verbatim>\<open>foldl\<close> holds (it is empty before C++20), a step on a node goes on
  with the tail and the operation's result for the head and the member \<^verbatim>\<open>type\<close> of the
  initial value. For the list of \<open>a\<close>, \<open>b\<close>, \<open>c\<close> the result is \<open>combine c i2\<close>, where \<open>i2\<close>
  is the member \<^verbatim>\<open>type\<close> of \<open>combine b i1\<close>, \<open>i1\<close> that of \<open>combine a i0\<close> and \<open>i0\<close> that of
  the initial value, whenever these exist and the requires-clause holds at each of the
  three steps. Where the initial value and the two intermediate results are their own
  member \<^verbatim>\<open>type\<close>, this is \<open>combine c (combine b (combine a init))\<close>; for an operation
  defined on all types the requires-clause then holds by itself.
\<close>

theorem foldl_left_to_right:
  "(nested_type init = Some i0 \<and> combine a i0 = Some r1
      \<and> nested_type r1 = Some i1 \<and> combine b i1 = Some r2
      \<and> nested_type r2 = Some i2 \<and> combine c i2 = Some r3
      \<and> TYPE_LIST_CXX20REQUIRES cxx20
           (is_type_list (make_t [a, b, c])
            \<and> is_binary_operation combine (make_t [a, b, c]) init)
      \<and> TYPE_LIST_CXX20REQUIRES cxx20
           (is_type_list (make_t [b, c]) \<and> is_binary_operation combine (make_t [b, c]) r1)
      \<and> TYPE_LIST_CXX20REQUIRES cxx20
           (is_type_list (make_t [c]) \<and> is_binary_operation combine (make_t [c]) r2)
     \<longrightarrow> foldl_t cxx20 (make_t [a, b, c]) combine init = Inr r3)
   \<and> (nested_type init = Some init \<and> combine a init = Some r1
      \<and> nested_type r1 = Some r1 \<and> combine b r1 = Some r2
      \<and> nested_type r2 = Some r2 \<and> combine c r2 = Some r3
      \<and> TYPE_LIST_CXX20REQUIRES cxx20
           (is_type_list (make_t [a, b, c])
            \<and> is_binary_operation combine (make_t [a, b, c]) init)
      \<and> TYPE_LIST_CXX20REQUIRES cxx20
           (is_type_list (make_t [b, c]) \<and> is_binary_operation combine (make_t [b, c]) r1)
      \<and> TYPE_LIST_CXX20REQUIRES cxx20
           (is_type_list (make_t [c]) \<and> is_binary_operation combine (make_t [c]) r2)
     \<longrightarrow> foldl_t cxx20 (make_t [a, b, c]) combine init = Inr r3)
   \<and> (nested_type init = Some init \<and> nested_type (g a init) = Some (g a init)
      \<and> nested_type (g b (g a init)) = Some (g b (g a init))
     \<longrightarrow> foldl_t cxx20 (make_t [a, b, c]) (\<lambda>E Acc. Some (g E Acc)) init
           = Inr (g c (g b (g a init))))
   \<and> (nested_type init = Some i0 \<and> combine F i0 = Some A
      \<and> TYPE_LIST_CXX20REQUIRES cxx20
           (is_type_list (Type_list_cons F R)
            \<and> is_binary_operation combine (Type_list_cons F R) init)
     \<longrightarrow> foldl_t cxx20 (Type_list_cons F R) combine init = foldl_t cxx20 R combine A)
   \<and> foldl_t cxx20 Type_list_nil combine init = Inr init"
proof (intro conjI impI)
  assume "nested_type init = Some init \<and> nested_type (g a init) = Some (g a init)
      \<and> nested_type (g b (g a init)) = Some (g b (g a init))"
  then have "referenceable init" and "referenceable (g a init)"
    and "referenceable (g b (g a init))"
    and "nested_type init = Some init" and "nested_type (g a init) = Some (g a init)"
    and "nested_type (g b (g a init)) = Some (g b (g a init))"
    by (auto intro: nested_type_referenceable)
  then show "foldl_t cxx20 (make_t [a, b, c]) (\<lambda>E Acc. Some (g E Acc)) init
           = Inr (g c (g b (g a init)))"
    by (simp add: foldl_t_cons foldl_t_nil is_binary_operation_cons is_type_list_cons
        TYPE_LIST_CXX20REQUIRES_def)
qed (simp_all add: foldl_t_cons foldl_t_nil)

theorem foldl_left_to_right_witness:
  "foldl_t True (make_t [Builtin ''a'', Builtin ''b'', Builtin ''c''])
      (\<lambda>E Acc. Some (Struct ''cons'' None None (Some (Type_list_cons E Acc))))
      (Struct ''nil'' None None (Some Type_list_nil))
     = Inr (Struct ''cons'' None None
              (Some (make_t [Builtin ''c'', Builtin ''b'', Builtin ''a''])))
   \<and> foldl_t True (make_t [Builtin ''a'', Builtin ''b'', Builtin ''c''])
      (\<lambda>E Acc. Some (Integral_constant E 0)) (Integral_constant (Builtin ''int'') 0)
     = Inr (Integral_constant (Builtin ''c'') 0)
   \<and> foldl_t False (make_t [Builtin ''a'', Builtin ''b'', Builtin ''c''])
      (\<lambda>E Acc. if Acc = Builtin ''int'' then Some (Integral_constant E 0)
                else if E = Builtin ''a'' then None
                else Some (Integral_constant E 0))
      (Struct ''zero'' None None (Some (Builtin ''int'')))
     = Inr (Integral_constant (Builtin ''c'') 0)"
proof (intro conjI)
  show "foldl_t True (make_t [Builtin ''a'', Builtin ''b'', Builtin ''c''])
      (\<lambda>E Acc. Some (Struct ''cons'' None None (Some (Type_list_cons E Acc))))
      (Struct ''nil'' None None (Some Type_list_nil))
     = Inr (Struct ''cons'' None None
              (Some (make_t [Builtin ''c'', Builtin ''b'', Builtin ''a''])))"
    using foldl_left_to_right [of "Struct ''nil'' None None (Some Type_list_nil)"
        Type_list_nil
        "\<lambda>E Acc. Some (Struct ''cons'' None None (Some (Type_list_cons E Acc)))"
        "Builtin ''a''"
        "Struct ''cons'' None None (Some (make_t [Builtin ''a'']))"
        "make_t [Builtin ''a'']"
        "Builtin ''b''"
        "Struct ''cons'' None None (Some (make_t [Builtin ''b'', Builtin ''a'']))"
        "make_t [Builtin ''b'', Builtin ''a'']"
        "Builtin ''c''"
        "Struct ''cons'' None None (Some (make_t [Builtin ''c'', Builtin ''b'', Builtin ''a'']))"
        True]
    by (simp add: TYPE_LIST_CXX20REQUIRES_def is_type_list_cons is_binary_operation_cons)
  show "foldl_t True (make_t [Builtin ''a'', Builtin ''b'', Builtin ''c''])
      (\<lambda>E Acc. Some (Integral_constant E 0)) (Integral_constant (Builtin ''int'') 0)
     = Inr (Integral_constant (Builtin ''c'') 0)"
    using foldl_left_to_right [of "Integral_constant (Builtin ''int'') 0" _ _
        "Builtin ''a''" _ _ "Builtin ''b''" _ _ "Builtin ''c''" _ True
        "\<lambda>E Acc. Integral_constant E 0"]
    by simp
  show "foldl_t False (make_t [Builtin ''a'', Builtin ''b'', Builtin ''c''])
      (\<lambda>E Acc. if Acc = Builtin ''int'' then Some (Integral_constant E 0)
                else if E = Builtin ''a'' then None
                else Some (Integral_constant E 0))
      (Struct ''zero'' None None (Some (Builtin ''int'')))
     = Inr (Integral_constant (Builtin ''c'') 0)"
    using foldl_left_to_right [of "Struct ''zero'' None None (Some (Builtin ''int''))"
        "Builtin ''int''"
        "\<lambda>E Acc. if Acc = Builtin ''int'' then Some (Integral_constant E 0)
                else if E = Builtin ''a'' then None
                else Some (Integral_constant E 0)"
        "Builtin ''a''" "Integral_constant (Builtin ''a'') 0" "Integral_constant (Builtin ''a'') 0"
        "Builtin ''b''" "Integral_constant (Builtin ''b'') 0" "Integral_constant (Builtin ''b'') 0"
        "Builtin ''c''" "Integral_constant (Builtin ''c'') 0" False]
    by (simp add: TYPE_LIST_CXX20REQUIRES_def)
qed

text \<open>
  The claim C3 as it is written fails. The operation that returns its accumulator,
  \<^verbatim>\<open>template <typename E, typename Acc> using type = Acc\<close>, is defined on all types. With
  the initial value \<^verbatim>\<open>int\<close> the claim gives \<^verbatim>\<open>int\<close>, and the code stops since \<^verbatim>\<open>int\<close> has no
  member \<^verbatim>\<open>type\<close>; with an initial value whose member \<^verbatim>\<open>type\<close> is
  \<^verbatim>\<open>std::integral_constant<int, 0>\<close> the claim gives the initial value, and the code gives
  the constant.
\<close>

theorem foldl_left_to_right_counterexample:
  "foldl_t True (make_t [Builtin ''a'', Builtin ''b'', Builtin ''c''])
      (\<lambda>E Acc. Some Acc) (Builtin ''int'')
     = Inl (No_member ''type'')
   \<and> foldl_t True (make_t [Builtin ''a'', Builtin ''b'', Builtin ''c''])
      (\<lambda>E Acc. Some Acc) (Builtin ''int'')
     \<noteq> Inr ((\<lambda>E Acc. Acc) (Builtin ''c'')
              ((\<lambda>E Acc. Acc) (Builtin ''b'') ((\<lambda>E Acc. Acc) (Builtin ''a'') (Builtin ''int''))))
   \<and> foldl_t True (make_t [Builtin ''a'', Builtin ''b'', Builtin ''c''])
      (\<lambda>E Acc. Some Acc)
      (Struct ''zero'' None None (Some (Integral_constant (Builtin ''int'') 0)))
     = Inr (Integral_constant (Builtin ''int'') 0)
   \<and> Integral_constant (Builtin ''int'') 0
     \<noteq> Struct ''zero'' None None (Some (Integral_constant (Builtin ''int'') 0))"
  by (simp add: foldl_t_cons foldl_t_nil TYPE_LIST_CXX20REQUIRES_def is_type_list_cons
      is_binary_operation_cons)

text \<open>
  C8: the body of \<^verbatim>\<open>foldl\<close> applies the operation to the head and the member \<^verbatim>\<open>type\<close> of
  the initial value, as the claim says, and the requires-clause of the same template
  asks for the operation on the initial value itself and the head, in the other order.
  Take the operation
  \<^verbatim>\<open>template <typename E, typename Acc> using type = std::enable_if_t<std::is_same_v<Acc, int>, E>\<close>,
  the list of \<^verbatim>\<open>char\<close> and an initial value \<^verbatim>\<open>zero\<close> whose member \<^verbatim>\<open>type\<close> is \<^verbatim>\<open>int\<close>. The
  operation on \<^verbatim>\<open>char\<close> and \<^verbatim>\<open>zero::type\<close> is \<^verbatim>\<open>char\<close>, which the fold yields before C++20;
  under C++20 the fold is refused, the operation having no result for \<^verbatim>\<open>zero\<close> and
  \<^verbatim>\<open>char\<close>.
\<close>

theorem foldl_requires_other_application:
  "nested_type (Struct ''zero'' None None (Some (Builtin ''int''))) = Some (Builtin ''int'')
   \<and> (\<lambda>E Acc. if Acc = Builtin ''int'' then Some E else None)
        (Builtin ''char'') (Builtin ''int'') = Some (Builtin ''char'')
   \<and> foldl_t False (make_t [Builtin ''char''])
        (\<lambda>E Acc. if Acc = Builtin ''int'' then Some E else None)
        (Struct ''zero'' None None (Some (Builtin ''int'')))
      = Inr (Builtin ''char'')
   \<and> foldl_t True (make_t [Builtin ''char''])
        (\<lambda>E Acc. if Acc = Builtin ''int'' then Some E else None)
        (Struct ''zero'' None None (Some (Builtin ''int'')))
      = Inl Constraint_not_satisfied
   \<and> (\<lambda>E Acc. if Acc = Builtin ''int'' then Some E else None)
        (Struct ''zero'' None None (Some (Builtin ''int''))) (Builtin ''char'') = None
   \<and> is_binary_operation (\<lambda>E Acc. if Acc = Builtin ''int'' then Some E else None)
        (make_t [Builtin ''char'']) (Struct ''zero'' None None (Some (Builtin ''int'')))
      = False"
  by (simp add: foldl_t_cons foldl_t_nil TYPE_LIST_CXX20REQUIRES_def is_type_list_cons
      is_binary_operation_cons)

section \<open>The check of the list parameter\<close>

lemma size_v_cxx17_error:
  "size_v False T = Inl e \<Longrightarrow> e \<noteq> Constraint_not_satisfied"
proof (induction "False" T arbitrary: e rule: size_v.induct)
  case (1 TypeList)
  show ?case
  proof (cases "TypeList \<noteq> Type_list_nil \<and> (\<exists>R. rest TypeList = Some R)")
    case True
    then obtain R where n: "TypeList \<noteq> Type_list_nil" and r: "rest TypeList = Some R"
      by blast
    with "1.prems" have "size_v False R = Inl e"
      by (subst (asm) size_v.simps) (auto simp: requires_cxx17 split: sum.splits)
    with n r "1.hyps" show ?thesis
      by (simp add: requires_cxx17)
  next
    case False
    with "1.prems" show ?thesis
      by (subst (asm) size_v.simps)
        (auto simp: requires_cxx17 split: if_splits option.splits)
  qed
qed

lemma contains_v_cxx17_error:
  "contains_v False T E = Inl e \<Longrightarrow> e \<noteq> Constraint_not_satisfied"
proof (induction "False" T E arbitrary: e rule: contains_v.induct)
  case (1 TypeList Element)
  show ?case
  proof (cases "TypeList \<noteq> Type_list_nil
      \<and> (\<exists>F R. first TypeList = Some F \<and> rest TypeList = Some R)")
    case True
    then obtain F R where n: "TypeList \<noteq> Type_list_nil"
      and f: "first TypeList = Some F" and r: "rest TypeList = Some R"
      by blast
    with "1.prems" have "contains_v False R Element = Inl e"
      by (subst (asm) contains_v.simps) (auto simp: requires_cxx17 split: sum.splits)
    with n f r "1.hyps" show ?thesis
      by (simp add: requires_cxx17)
  next
    case False
    with "1.prems" show ?thesis
      by (subst (asm) contains_v.simps)
        (auto simp: requires_cxx17 split: if_splits option.splits)
  qed
qed

lemma equal_v_cxx17_error:
  "equal_v False A B = Inl e \<Longrightarrow> e \<noteq> Constraint_not_satisfied"
proof (induction "False" A B arbitrary: e rule: equal_v.induct)
  case (1 TypeList1 TypeList2)
  show ?case
  proof (cases "TypeList1 \<noteq> Type_list_nil \<and> TypeList2 \<noteq> Type_list_nil
      \<and> (\<exists>F1 F2 R1 R2. first TypeList1 = Some F1 \<and> first TypeList2 = Some F2
            \<and> rest TypeList1 = Some R1 \<and> rest TypeList2 = Some R2)")
    case True
    then obtain F1 F2 R1 R2 where n: "TypeList1 \<noteq> Type_list_nil" "TypeList2 \<noteq> Type_list_nil"
      and f: "first TypeList1 = Some F1" "first TypeList2 = Some F2"
      and r: "rest TypeList1 = Some R1" "rest TypeList2 = Some R2"
      by blast
    with "1.prems" have "equal_v False R1 R2 = Inl e"
      by (subst (asm) equal_v.simps) (auto simp: requires_cxx17 split: sum.splits)
    with n f r "1.hyps" show ?thesis
      by (simp add: requires_cxx17)
  next
    case False
    with "1.prems" show ?thesis
      by (subst (asm) equal_v.simps)
        (auto simp: requires_cxx17 split: if_splits option.splits)
  qed
qed

lemma transform_t_cxx17_error:
  "transform_t False T Op = Inl e \<Longrightarrow> e \<noteq> Constraint_not_satisfied"
proof (induction "False" T Op arbitrary: e rule: transform_t.induct)
  case (1 TypeList UnaryOperation)
  show ?case
  proof (cases "TypeList \<noteq> Type_list_nil
      \<and> (\<exists>F U H R. first TypeList = Some F \<and> UnaryOperation F = Some U
            \<and> nested_type U = Some H \<and> rest TypeList = Some R)")
    case True
    then obtain F U H R where n: "TypeList \<noteq> Type_list_nil"
      and f: "first TypeList = Some F" and u: "UnaryOperation F = Some U"
      and h: "nested_type U = Some H" and r: "rest TypeList = Some R"
      by blast
    with "1.prems" have "transform_t False R UnaryOperation = Inl e"
      by (subst (asm) transform_t.simps) (auto simp: requires_cxx17 split: sum.splits)
    with n f u h r "1.hyps" show ?thesis
      by (simp add: requires_cxx17)
  next
    case False
    with "1.prems" show ?thesis
      by (subst (asm) transform_t.simps)
        (auto simp: requires_cxx17 split: if_splits option.splits)
  qed
qed

lemma foldl_t_cxx17_error:
  "foldl_t False T Op Init = Inl e \<Longrightarrow> e \<noteq> Constraint_not_satisfied"
proof (induction "False" T Op Init rule: foldl_t.induct)
  case (1 TypeList BinaryOperation Initial)
  show ?case
  proof (cases "TypeList \<noteq> Type_list_nil
      \<and> (\<exists>F I A R. first TypeList = Some F \<and> nested_type Initial = Some I
            \<and> BinaryOperation F I = Some A \<and> rest TypeList = Some R)")
    case True
    then obtain F I A R where n: "TypeList \<noteq> Type_list_nil"
      and f: "first TypeList = Some F" and i: "nested_type Initial = Some I"
      and a: "BinaryOperation F I = Some A" and r: "rest TypeList = Some R"
      by blast
    with "1.prems" have "foldl_t False R BinaryOperation A = Inl e"
      by (subst (asm) foldl_t.simps) (auto simp: requires_cxx17)
    with n f i a r "1.hyps" show ?thesis
      by (simp add: requires_cxx17)
  next
    case False
    with "1.prems" show ?thesis
      by (subst (asm) foldl_t.simps)
        (auto simp: requires_cxx17 split: if_splits option.splits)
  qed
qed

lemma equal_v_cxx17_nil:
  "equal_v False T Type_list_nil = Inr (T = Type_list_nil)"
  "equal_v False Type_list_nil T = Inr (T = Type_list_nil)"
  by (subst equal_v.simps, simp add: requires_cxx17)+

lemma no_members_cxx17:
  assumes "T \<noteq> Type_list_nil" and "first T = None" and "rest T = None"
  shows "size_v False T = Inl (No_member ''rest'')"
    and "contains_v False T E = Inl (No_member ''first'')"
    and "transform_t False T Op = Inl (No_member ''first'')"
    and "foldl_t False T Bop Init = Inl (No_member ''first'')"
proof -
  show "size_v False T = Inl (No_member ''rest'')"
    using assms by (subst size_v.simps) (simp add: requires_cxx17)
  show "contains_v False T E = Inl (No_member ''first'')"
    using assms by (subst contains_v.simps) (simp add: requires_cxx17)
  show "transform_t False T Op = Inl (No_member ''first'')"
    using assms by (subst transform_t.simps) (simp add: requires_cxx17)
  show "foldl_t False T Bop Init = Inl (No_member ''first'')"
    using assms by (subst foldl_t.simps) (simp add: requires_cxx17)
qed

text \<open>
  C9, as the code has it: under C++20 the requires-clause of every operation tests
  \<open>is_type_list\<close> on its list parameters, and a parameter that fails the test is refused
  there, as an unsatisfied constraint. The test holds for \<^verbatim>\<open>type_list<>\<close> and for every
  type with the member types \<^verbatim>\<open>first\<close> and \<^verbatim>\<open>rest\<close>, whatever \<^verbatim>\<open>rest\<close> is. Before C++20
  the requires-clauses are empty and no operation tests its parameter: none stops on an
  unsatisfied constraint, \<open>equal_v\<close> compares any type whatever with \<^verbatim>\<open>type_list<>\<close> (the
  result is true for \<^verbatim>\<open>type_list<>\<close> itself and false otherwise), and \<open>size_v\<close>,
  \<open>contains_v\<close>, \<open>transform_t\<close> and \<open>foldl_t\<close> of a type with neither member, other than
  \<^verbatim>\<open>type_list<>\<close>, stop inside the template on a missing member.
\<close>

theorem malformed_list_rejected_cxx20:
  "(cxx20 \<and> \<not> is_type_list T \<longrightarrow>
      size_v cxx20 T = Inl Constraint_not_satisfied
      \<and> contains_v cxx20 T E = Inl Constraint_not_satisfied
      \<and> equal_v cxx20 T B = Inl Constraint_not_satisfied
      \<and> equal_v cxx20 A T = Inl Constraint_not_satisfied
      \<and> transform_t cxx20 T Op = Inl Constraint_not_satisfied
      \<and> foldl_t cxx20 T Bop Init = Inl Constraint_not_satisfied)
   \<and> is_type_list T = (T = Type_list_nil \<or> (first T \<noteq> None \<and> rest T \<noteq> None))
   \<and> is_type_list (Type_list_cons F R)
   \<and> size_v False L \<noteq> Inl Constraint_not_satisfied
   \<and> contains_v False L X \<noteq> Inl Constraint_not_satisfied
   \<and> equal_v False L1 L2 \<noteq> Inl Constraint_not_satisfied
   \<and> transform_t False L Op \<noteq> Inl Constraint_not_satisfied
   \<and> foldl_t False L Bop Init \<noteq> Inl Constraint_not_satisfied
   \<and> equal_v False T Type_list_nil = Inr (T = Type_list_nil)
   \<and> equal_v False Type_list_nil T = Inr (T = Type_list_nil)
   \<and> (T \<noteq> Type_list_nil \<and> first T = None \<and> rest T = None \<longrightarrow>
        (\<exists>m. size_v False T = Inl (No_member m))
        \<and> (\<exists>m. contains_v False T E = Inl (No_member m))
        \<and> (\<exists>m. transform_t False T Op = Inl (No_member m))
        \<and> (\<exists>m. foldl_t False T Bop Init = Inl (No_member m)))"
proof (intro conjI impI)
  assume a: "cxx20 \<and> \<not> is_type_list T"
  then have r: "\<And>x. \<not> TYPE_LIST_CXX20REQUIRES cxx20 (is_type_list T \<and> x)"
    "\<And>x. \<not> TYPE_LIST_CXX20REQUIRES cxx20 (x \<and> is_type_list T)"
    "\<not> TYPE_LIST_CXX20REQUIRES cxx20 (is_type_list T)"
    by (simp_all add: TYPE_LIST_CXX20REQUIRES_def)
  show "size_v cxx20 T = Inl Constraint_not_satisfied"
    by (subst size_v.simps) (simp add: r)
  show "contains_v cxx20 T E = Inl Constraint_not_satisfied"
    by (subst contains_v.simps) (simp add: r)
  show "equal_v cxx20 T B = Inl Constraint_not_satisfied"
    by (subst equal_v.simps) (simp add: r)
  show "equal_v cxx20 A T = Inl Constraint_not_satisfied"
    by (subst equal_v.simps) (simp add: r)
  show "transform_t cxx20 T Op = Inl Constraint_not_satisfied"
    by (subst transform_t.simps) (simp add: r)
  show "foldl_t cxx20 T Bop Init = Inl Constraint_not_satisfied"
    by (subst foldl_t.simps) (simp add: r)
next
  show "is_type_list T = (T = Type_list_nil \<or> (first T \<noteq> None \<and> rest T \<noteq> None))"
    by (auto simp: is_type_list_def split: option.splits)
  show "is_type_list (Type_list_cons F R)"
    by (rule is_type_list_cons)
  show "size_v False L \<noteq> Inl Constraint_not_satisfied"
    using size_v_cxx17_error by blast
  show "contains_v False L X \<noteq> Inl Constraint_not_satisfied"
    using contains_v_cxx17_error by blast
  show "equal_v False L1 L2 \<noteq> Inl Constraint_not_satisfied"
    using equal_v_cxx17_error by blast
  show "transform_t False L Op \<noteq> Inl Constraint_not_satisfied"
    using transform_t_cxx17_error by blast
  show "foldl_t False L Bop Init \<noteq> Inl Constraint_not_satisfied"
    using foldl_t_cxx17_error by blast
  show "equal_v False T Type_list_nil = Inr (T = Type_list_nil)"
    and "equal_v False Type_list_nil T = Inr (T = Type_list_nil)"
    by (rule equal_v_cxx17_nil)+
next
  assume b: "T \<noteq> Type_list_nil \<and> first T = None \<and> rest T = None"
  then show "\<exists>m. size_v False T = Inl (No_member m)"
    and "\<exists>m. contains_v False T E = Inl (No_member m)"
    and "\<exists>m. transform_t False T Op = Inl (No_member m)"
    and "\<exists>m. foldl_t False T Bop Init = Inl (No_member m)"
    by (simp_all add: no_members_cxx17)
qed

theorem malformed_list_rejected_cxx20_witness:
  "\<not> is_type_list (Builtin ''int'')
   \<and> size_v True (Builtin ''int'') = Inl Constraint_not_satisfied
   \<and> contains_v True (Builtin ''int'') (Builtin ''int'') = Inl Constraint_not_satisfied
   \<and> equal_v True (Builtin ''int'') Type_list_nil = Inl Constraint_not_satisfied
   \<and> equal_v True Type_list_nil (Builtin ''int'') = Inl Constraint_not_satisfied
   \<and> transform_t True (Builtin ''int'') Some = Inl Constraint_not_satisfied
   \<and> foldl_t True (Builtin ''int'') (\<lambda>E Acc. Some Acc) (Builtin ''int'')
       = Inl Constraint_not_satisfied
   \<and> equal_v False (Builtin ''int'') Type_list_nil = Inr False
   \<and> (\<exists>m. size_v False (Builtin ''int'') = Inl (No_member m))
   \<and> (\<exists>m. contains_v False (Builtin ''int'') (Builtin ''int'') = Inl (No_member m))
   \<and> (\<exists>m. transform_t False (Builtin ''int'') Some = Inl (No_member m))
   \<and> (\<exists>m. foldl_t False (Builtin ''int'') (\<lambda>E Acc. Some Acc) (Builtin ''int'')
             = Inl (No_member m))"
proof -
  have n: "\<not> is_type_list (Builtin ''int'')"
    by (simp add: is_type_list_def)
  with malformed_list_rejected_cxx20 [of True "Builtin ''int''" "Builtin ''int''"
      Type_list_nil Type_list_nil Some "\<lambda>E Acc. Some Acc" "Builtin ''int''"]
  show ?thesis by simp
qed

text \<open>
  The claim C9 as it is written fails. \<^verbatim>\<open>type_list<int, char>\<close> is not a list, its tail
  being \<^verbatim>\<open>char\<close>, and in both language modes \<open>equal_v\<close> compares it with the empty list
  without any diagnostic. Before C++20 \<^verbatim>\<open>int\<close> itself is compared with the empty list
  without any diagnostic, and \<open>size_v\<close> of \<^verbatim>\<open>int\<close> stops on the missing member \<^verbatim>\<open>rest\<close>
  inside the template, not on a check of the parameter.
\<close>

theorem malformed_list_undetected_counterexample:
  "\<not> valid_list_shape (Type_list_cons (Builtin ''int'') (Builtin ''char''))
   \<and> equal_v True Type_list_nil (Type_list_cons (Builtin ''int'') (Builtin ''char''))
       = Inr False
   \<and> equal_v False Type_list_nil (Type_list_cons (Builtin ''int'') (Builtin ''char''))
       = Inr False
   \<and> \<not> valid_list_shape (Builtin ''int'')
   \<and> equal_v False (Builtin ''int'') Type_list_nil = Inr False
   \<and> size_v False (Builtin ''int'') = Inl (No_member ''rest'')"
proof (intro conjI)
  show "equal_v False (Builtin ''int'') Type_list_nil = Inr False"
    by (subst equal_v.simps) (simp add: requires_cxx17)
  show "size_v False (Builtin ''int'') = Inl (No_member ''rest'')"
    by (subst size_v.simps) (simp add: requires_cxx17)
qed (simp_all add: equal_v_nil_cons)

end
